theory Spec2Isabelle
  imports Main "HOL-Library.Sublist"
begin

section \<open>Values thrown by the code\<close>

text \<open>
  Every \<^verbatim>\<open>throw\<close> of the TypeScript sources is a value of type \<open>error\<close>, and a
  function that may throw returns \<open>error + 'a\<close> with \<open>Inl\<close> for the thrown value.
  \<open>JsError m\<close> is \<^verbatim>\<open>new Error(m)\<close>, \<open>TypeError\<close> and \<open>SyntaxError\<close> are raised by the
  runtime (\<^verbatim>\<open>new URL\<close> on a string that is no URL, a property read on
  \<^verbatim>\<open>undefined\<close>, \<^verbatim>\<open>new RegExp\<close> on a malformed pattern), \<open>TRPCError\<close> and
  \<open>ProtectedHandlerError\<close> are the two error classes the middleware constructs.
\<close>

datatype trpc_code = BAD_REQUEST | UNAUTHORIZED | INTERNAL_SERVER_ERROR

datatype error =
    JsError string
  | TypeError string
  | SyntaxError string
  | TRPCError trpc_code string
  | ProtectedHandlerError string string

text \<open>\<^verbatim>\<open>error.message\<close>, as the \<^verbatim>\<open>catch\<close> blocks read it.\<close>

fun message :: "error \<Rightarrow> string" where
  "message (JsError m) = m"
| "message (TypeError m) = m"
| "message (SyntaxError m) = m"
| "message (TRPCError c m) = m"
| "message (ProtectedHandlerError m c) = m"

section \<open>Data model of \<^verbatim>\<open>apl-interfaces.ts\<close>\<close>

text \<open>The interface \<^verbatim>\<open>AuthData\<close>; an optional field is an \<open>option\<close>.\<close>

record AuthData =
  ad_domain :: "string option"
  ad_token :: string
  ad_saleorApiUrl :: string
  ad_appId :: string
  ad_dashboardUrl :: string
  ad_jwks :: "string option"

text \<open>
  The claim set \<^verbatim>\<open>jose.decodeJwt\<close> returns is a JSON object: a partial map from claim
  names to JSON values. A claim that is absent reads as \<^verbatim>\<open>undefined\<close>, here \<open>None\<close>.
\<close>

datatype json =
    JNull
  | JBool bool
  | JNum int
  | JStr string
  | JArr "json list"
  | JObj "(string \<times> json) list"

type_synonym JWTPayload = "string \<rightharpoonup> json"

type_synonym headers = "(string \<times> string) list"

record RequestInit =
  init_headers :: headers

record Response =
  ok :: bool
  statusText :: string

record URL =
  href :: string
  origin :: string

text \<open>
  What \<^verbatim>\<open>createCustomRemoteJWKSet\<close> hands to \<^verbatim>\<open>jose.createRemoteJWKSet\<close>: the parsed
  key-set URL and the options object with the properties \<^verbatim>\<open>fetch\<close> and \<^verbatim>\<open>headers\<close>.
  The library reads \<^verbatim>\<open>headers\<close> and fetches the key set itself; \<^verbatim>\<open>fetch\<close> is no option
  it reads, so the closure is carried in the object and not called by it.
\<close>

record RemoteJWKSet =
  jwks_url :: URL
  jwks_fetch :: "string \<Rightarrow> RequestInit option \<Rightarrow> error + Response"
  jwks_headers :: headers

text \<open>
  The runtime and the \<^verbatim>\<open>jose\<close> library are parameters of the model:
  \<open>URL_new s\<close> is \<^verbatim>\<open>new URL(s)\<close> (\<open>None\<close> when it throws), \<open>fetch\<close> is the global
  \<^verbatim>\<open>fetch\<close>, \<open>decodeJwt\<close> and \<open>jwtVerify\<close> are the two \<^verbatim>\<open>jose\<close> functions.
\<close>

record jose_runtime =
  URL_new :: "string \<Rightarrow> URL option"
  fetch :: "string \<Rightarrow> RequestInit \<Rightarrow> error + Response"
  decodeJwt :: "string \<Rightarrow> error + JWTPayload"
  jwtVerify :: "string \<Rightarrow> RemoteJWKSet \<Rightarrow> error + unit"

section \<open>Key-set fetcher and token verifier\<close>

text \<open>
  \<^verbatim>\<open>getJwksUrlFromSaleorApiUrl\<close>: the origin of the API URL followed by the well-known
  path; \<^verbatim>\<open>new URL\<close> throws on a string that is no URL.
\<close>

definition getJwksUrlFromSaleorApiUrl :: "jose_runtime \<Rightarrow> string \<Rightarrow> error + string" where
  "getJwksUrlFromSaleorApiUrl R saleorApiUrl =
     (case URL_new R saleorApiUrl of
        None \<Rightarrow> Inl (TypeError ''Invalid URL'')
      | Some u \<Rightarrow> Inr (origin u @ ''/.well-known/jwks.json''))"

text \<open>
  \<^verbatim>\<open>fetchWithHeaders\<close>, the closure inside \<^verbatim>\<open>createCustomRemoteJWKSet\<close>: \<open>init\<close>
  defaults to \<^verbatim>\<open>{ headers }\<close>, a rejected \<^verbatim>\<open>fetch\<close> propagates, and a response
  that is not \<^verbatim>\<open>ok\<close> throws an \<^verbatim>\<open>Error\<close> built from the status text.
\<close>

definition fetchWithHeaders ::
  "jose_runtime \<Rightarrow> headers \<Rightarrow> string \<Rightarrow> RequestInit option \<Rightarrow> error + Response" where
  "fetchWithHeaders R hdrs input init_opt =
     (let init = (case init_opt of None \<Rightarrow> \<lparr>init_headers = hdrs\<rparr> | Some i \<Rightarrow> i) in
      case fetch R input init of
        Inl e \<Rightarrow> Inl e
      | Inr response \<Rightarrow>
          if \<not> ok response
          then Inl (JsError (''Failed to fetch JWKS: '' @ statusText response))
          else Inr response)"

definition createCustomRemoteJWKSet ::
  "jose_runtime \<Rightarrow> string \<Rightarrow> headers \<Rightarrow> error + RemoteJWKSet" where
  "createCustomRemoteJWKSet R url hdrs =
     (case URL_new R url of
        None \<Rightarrow> Inl (TypeError ''Invalid URL'')
      | Some u \<Rightarrow>
          Inr \<lparr>jwks_url = u, jwks_fetch = fetchWithHeaders R hdrs, jwks_headers = hdrs\<rparr>)"

text \<open>The argument object of \<^verbatim>\<open>verifyJWTWithCustomHeaders\<close>.\<close>

record VerifyArgs =
  va_saleorApiUrl :: string
  va_token :: string
  va_appId :: string
  va_requiredPermissions :: "string list"
  va_dashboardUrl :: string

text \<open>
  The headers object \<^verbatim>\<open>{ Origin: "https://" + dashboardUrl, Referer: "https://" + dashboardUrl }\<close>.
\<close>

definition dashboard_headers :: "string \<Rightarrow> headers" where
  "dashboard_headers dashboardUrl =
     [(''Origin'', ''https://'' @ dashboardUrl), (''Referer'', ''https://'' @ dashboardUrl)]"

definition ERROR_MESSAGE :: string where
  "ERROR_MESSAGE = ''JWT verification failed:''"

text \<open>
  \<^verbatim>\<open>verifyJWTWithCustomHeaders\<close>, statement by statement: build the key-set URL and the
  key set with the \<^verbatim>\<open>Origin\<close> and \<^verbatim>\<open>Referer\<close> headers, decode the claims, verify the
  signature, compare the \<^verbatim>\<open>app\<close> claim with \<^verbatim>\<open>appId\<close> by \<^verbatim>\<open>!==\<close>, return the claims.
  \<^verbatim>\<open>requiredPermissions\<close> is destructured and not read again.
\<close>

definition verifyJWTWithCustomHeaders :: "jose_runtime \<Rightarrow> VerifyArgs \<Rightarrow> error + JWTPayload" where
  "verifyJWTWithCustomHeaders R args =
     (case getJwksUrlFromSaleorApiUrl R (va_saleorApiUrl args) of
        Inl e \<Rightarrow> Inl e
      | Inr jwksUrl \<Rightarrow>
     (case createCustomRemoteJWKSet R jwksUrl (dashboard_headers (va_dashboardUrl args)) of
        Inl e \<Rightarrow> Inl e
      | Inr JWKS \<Rightarrow>
     (case decodeJwt R (va_token args) of
        Inl e \<Rightarrow> Inl (JsError (ERROR_MESSAGE @ '' Could not decode token: '' @ message e))
      | Inr tokenClaims \<Rightarrow>
     (case jwtVerify R (va_token args) JWKS of
        Inl e \<Rightarrow>
          Inl (JsError (ERROR_MESSAGE @ '' Signature verification failed: '' @ message e))
      | Inr _ \<Rightarrow>
          if tokenClaims ''app'' \<noteq> Some (JStr (va_appId args))
          then Inl (JsError (ERROR_MESSAGE @ '' Token's app property does not match app ID.''))
          else Inr tokenClaims))))"

section \<open>The middleware pipeline\<close>

text \<open>
  JavaScript truthiness of an optional string (\<^verbatim>\<open>undefined\<close> and the empty string are
  falsy), and \<^verbatim>\<open>v || ""\<close>.
\<close>

definition truthy :: "string option \<Rightarrow> bool" where
  "truthy v = (case v of None \<Rightarrow> False | Some s \<Rightarrow> s \<noteq> [])"

definition or_empty :: "string option \<Rightarrow> string" where
  "or_empty v = (case v of None \<Rightarrow> [] | Some s \<Rightarrow> s)"

text \<open>The handler's metadata, read as \<^verbatim>\<open>meta?.requiredClientPermissions\<close> and
  \<^verbatim>\<open>meta?.updateWebhooks\<close>.\<close>

record Meta =
  requiredClientPermissions :: "string list option"
  updateWebhooks :: "bool option"

definition requiredClientPermissions_or_nil :: "Meta option \<Rightarrow> string list" where
  "requiredClientPermissions_or_nil meta =
     (case meta of
        None \<Rightarrow> []
      | Some m \<Rightarrow> (case requiredClientPermissions m of None \<Rightarrow> [] | Some ps \<Rightarrow> ps))"

definition updateWebhooks_set :: "Meta option \<Rightarrow> bool" where
  "updateWebhooks_set meta =
     (case meta of None \<Rightarrow> False | Some m \<Rightarrow> updateWebhooks m = Some True)"

text \<open>
  The argument object of \<^verbatim>\<open>createInstrumentedGraphqlClient\<close> and the services the last
  middleware constructs. The classes are not among the sources; the source's comment
  says that the services do not fetch data from the API unless they are used, so a
  service is the record of its constructor's arguments.
\<close>

record ClientArgs =
  ca_saleorApiUrl :: "string option"
  ca_token :: "string option"
  ca_dashboardUrl :: string

record 'c FeatureFlagService =
  ffs_client :: "'c option"

record 'c SmtpMetadataManager =
  smm_client :: "'c option"
  smm_appId :: "string option"
  smm_saleorApiUrl :: "string option"

record 'c SmtpConfigurationService =
  scs_metadataManager :: "'c SmtpMetadataManager"
  scs_featureFlagService :: "'c FeatureFlagService"

record 'c WebhookManagementService =
  wms_appBaseUrl :: "string option"
  wms_client :: "'c option"
  wms_featureFlagService :: "'c FeatureFlagService"
  wms_appId :: "string option"

record 'c SyncArgs =
  sa_smtpConfigurationService :: "'c SmtpConfigurationService"
  sa_webhookManagementService :: "'c WebhookManagementService"

text \<open>
  The request context. The request supplies \<open>ctx_token\<close>, \<open>ctx_saleorApiUrl\<close>,
  \<open>ctx_appId\<close>, \<open>ctx_ssr\<close> and \<open>ctx_baseUrl\<close>; the stages add the rest. The router merges
  the object a stage passes to \<^verbatim>\<open>next\<close> into the context, which is a record update here.
\<close>

record 'c Ctx =
  ctx_token :: "string option"
  ctx_saleorApiUrl :: "string option"
  ctx_appId :: "string option"
  ctx_ssr :: "bool option"
  ctx_baseUrl :: "string option"
  ctx_appToken :: "string option"
  ctx_dashboardUrl :: "string option"
  ctx_apiClient :: "'c option"
  ctx_smtpConfigurationService :: "'c SmtpConfigurationService option"
  ctx_featureFlagService :: "'c FeatureFlagService option"

text \<open>
  The collaborators of the pipeline. \<open>apl_get\<close> is \<^verbatim>\<open>saleorApp.apl.get\<close>: it rejects
  (\<open>Inl\<close>), finds nothing (\<open>Inr None\<close>) or returns the record; within one request the
  store answers as a function of the key. \<open>REQUIRED_SALEOR_PERMISSIONS\<close>
  is the constant of the shared package, \<open>syncWebhookStatus\<close> the webhook reconciliation;
  both are imported by the sources and not among them.
\<close>

text \<open>
  Modelled from the spec: \<^verbatim>\<open>createInstrumentedGraphqlClient\<close> is imported from a file
  that is not among the sources. The spec says that constructing the client is not
  expected to fail and that failures surface lazily on first use, so the constructor is
  a total function from its argument object to a client of an abstract type \<open>'c\<close>.
\<close>

record 'c app_env =
  runtime :: jose_runtime
  apl_get :: "string \<Rightarrow> error + AuthData option"
  REQUIRED_SALEOR_PERMISSIONS :: "string list"
  createInstrumentedGraphqlClient :: "ClientArgs \<Rightarrow> 'c"
  syncWebhookStatus :: "'c SyncArgs \<Rightarrow> error + unit"

text \<open>
  What a stage does besides returning: the calls it makes, in order. \<open>EvNextCalled\<close> and
  \<open>EvNextReturned\<close> bracket the business operation, which the last middleware reaches
  through \<^verbatim>\<open>await next(...)\<close>.
\<close>

datatype event =
    EvAplGet string
  | EvVerifyJWT
  | EvNextCalled
  | EvNextReturned
  | EvNewWebhookManagementService
  | EvSyncWebhookStatus

type_synonym 'r outcome = "(error + 'r) \<times> event list"

definition emit :: "event list \<Rightarrow> 'r outcome \<Rightarrow> 'r outcome" where
  "emit evs out = (fst out, evs @ snd out)"

text \<open>Stage 1, \<^verbatim>\<open>attachAppToken\<close>.\<close>

definition attachAppToken ::
  "'c app_env \<Rightarrow> 'c Ctx \<Rightarrow> ('c Ctx \<Rightarrow> 'r outcome) \<Rightarrow> 'r outcome" where
  "attachAppToken E ctx next =
     (if \<not> truthy (ctx_saleorApiUrl ctx)
      then (Inl (TRPCError BAD_REQUEST ''Missing saleorApiUrl in request''), [])
      else
        (case apl_get E (or_empty (ctx_appId ctx)) of
           Inl e \<Rightarrow> (Inl e, [EvAplGet (or_empty (ctx_appId ctx))])
         | Inr None \<Rightarrow>
             (Inl (TRPCError UNAUTHORIZED ''Missing auth data''),
              [EvAplGet (or_empty (ctx_appId ctx))])
         | Inr (Some authData) \<Rightarrow>
             emit [EvAplGet (or_empty (ctx_appId ctx))]
               (next (ctx\<lparr>ctx_appToken := Some (ad_token authData),
                           ctx_saleorApiUrl := Some (ad_saleorApiUrl authData),
                           ctx_appId := Some (ad_appId authData)\<rparr>))))"

text \<open>
  The one error the \<^verbatim>\<open>catch\<close> block of \<^verbatim>\<open>validateClientToken\<close> throws.
\<close>

definition JWT_VERIFICATION_FAILED :: error where
  "JWT_VERIFICATION_FAILED =
     ProtectedHandlerError ''JWT verification failed: '' ''JWT_VERIFICATION_FAILED''"

text \<open>
  Stage 2, \<^verbatim>\<open>validateClientToken\<close>. The three guards come first, whatever \<^verbatim>\<open>ctx.ssr\<close>
  is. Inside the \<^verbatim>\<open>try\<close> the argument object is built first (its last property awaits
  \<^verbatim>\<open>apl.get\<close> and reads \<^verbatim>\<open>dashboardUrl\<close> of the result), then the verifier is called;
  whatever is thrown there is caught and replaced. \<open>verify_args\<close> is that argument
  object; after the guards the three strings are non-empty, so \<open>or_empty\<close> reads them
  as they are.
\<close>

definition verify_args :: "'c app_env \<Rightarrow> Meta option \<Rightarrow> 'c Ctx \<Rightarrow> AuthData \<Rightarrow> VerifyArgs" where
  "verify_args E meta ctx authData =
     \<lparr>va_saleorApiUrl = or_empty (ctx_saleorApiUrl ctx),
      va_token = or_empty (ctx_token ctx),
      va_appId = or_empty (ctx_appId ctx),
      va_requiredPermissions =
        REQUIRED_SALEOR_PERMISSIONS E @ requiredClientPermissions_or_nil meta,
      va_dashboardUrl = ad_dashboardUrl authData\<rparr>"

definition validateClientToken ::
  "'c app_env \<Rightarrow> Meta option \<Rightarrow> 'c Ctx \<Rightarrow> ('c Ctx \<Rightarrow> 'r outcome) \<Rightarrow> 'r outcome" where
  "validateClientToken E meta ctx next =
     (if \<not> truthy (ctx_token ctx)
      then (Inl (TRPCError INTERNAL_SERVER_ERROR
             ''Missing token in request. This middleware can be used only in frontend''), [])
      else if \<not> truthy (ctx_appId ctx)
      then (Inl (TRPCError INTERNAL_SERVER_ERROR
             ''Missing appId in request. This middleware can be used after auth is attached''), [])
      else if \<not> truthy (ctx_saleorApiUrl ctx)
      then (Inl (TRPCError INTERNAL_SERVER_ERROR
             ''Missing saleorApiUrl in request. This middleware can be used after auth is attached''), [])
      else if ctx_ssr ctx \<noteq> Some True
      then
        (case apl_get E (or_empty (ctx_appId ctx)) of
           Inr (Some authData) \<Rightarrow>
             (case verifyJWTWithCustomHeaders (runtime E) (verify_args E meta ctx authData) of
                Inl e \<Rightarrow>
                  (Inl JWT_VERIFICATION_FAILED,
                   [EvAplGet (or_empty (ctx_appId ctx)), EvVerifyJWT])
              | Inr claims \<Rightarrow>
                  emit [EvAplGet (or_empty (ctx_appId ctx)), EvVerifyJWT] (next ctx))
         | _ \<Rightarrow> (Inl JWT_VERIFICATION_FAILED, [EvAplGet (or_empty (ctx_appId ctx))]))
      else next ctx)"

text \<open>
  Stage 3, the anonymous middleware of \<^verbatim>\<open>protectedClientProcedure\<close>: the argument
  object awaits \<^verbatim>\<open>apl.get\<close> and reads \<^verbatim>\<open>dashboardUrl\<close> of the result with no guard.
\<close>

definition client_args :: "'c Ctx \<Rightarrow> AuthData \<Rightarrow> ClientArgs" where
  "client_args ctx authData =
     \<lparr>ca_saleorApiUrl = ctx_saleorApiUrl ctx, ca_token = ctx_appToken ctx,
      ca_dashboardUrl = ad_dashboardUrl authData\<rparr>"

definition attachApiClient ::
  "'c app_env \<Rightarrow> 'c Ctx \<Rightarrow> ('c Ctx \<Rightarrow> 'r outcome) \<Rightarrow> 'r outcome" where
  "attachApiClient E ctx next =
     (case apl_get E (or_empty (ctx_appId ctx)) of
        Inl e \<Rightarrow> (Inl e, [EvAplGet (or_empty (ctx_appId ctx))])
      | Inr None \<Rightarrow>
          (Inl (TypeError ''Cannot read properties of undefined (reading 'dashboardUrl')''),
           [EvAplGet (or_empty (ctx_appId ctx))])
      | Inr (Some authData) \<Rightarrow>
          emit [EvAplGet (or_empty (ctx_appId ctx))]
            (next (ctx\<lparr>ctx_apiClient :=
                     Some (createInstrumentedGraphqlClient E (client_args ctx authData))\<rparr>)))"

definition protectedClientProcedure ::
  "'c app_env \<Rightarrow> Meta option \<Rightarrow> 'c Ctx \<Rightarrow> ('c Ctx \<Rightarrow> 'r outcome) \<Rightarrow> 'r outcome" where
  "protectedClientProcedure E meta ctx next =
     attachAppToken E ctx (\<lambda>c1.
       validateClientToken E meta c1 (\<lambda>c2.
         attachApiClient E c2 next))"

text \<open>
  The middleware \<^verbatim>\<open>protectedWithConfigurationServices\<close> adds: it builds the services,
  awaits \<^verbatim>\<open>next\<close>, then, if \<^verbatim>\<open>meta?.updateWebhooks\<close> is truthy, builds the webhook
  management service and awaits \<^verbatim>\<open>syncWebhookStatus\<close> with no \<^verbatim>\<open>try\<close> around it, and
  returns the result of \<^verbatim>\<open>next\<close>. \<open>handler c\<close> is what \<^verbatim>\<open>await next(...)\<close> resolves to:
  \<open>Inr result\<close> for a business operation that succeeded, \<open>Inl e\<close> for the failed result
  the router produces when the operation throws \<open>e\<close>. The router catches what the
  operation throws, so \<^verbatim>\<open>await next(...)\<close> itself never throws and the statements after
  it run in both cases. A middleware that throws \<open>e\<close> ends the request like one that
  returns the failed result of \<open>e\<close>.
\<close>

definition new_FeatureFlagService :: "'c Ctx \<Rightarrow> 'c FeatureFlagService" where
  "new_FeatureFlagService ctx = \<lparr>ffs_client = ctx_apiClient ctx\<rparr>"

definition new_SmtpConfigurationService :: "'c Ctx \<Rightarrow> 'c SmtpConfigurationService" where
  "new_SmtpConfigurationService ctx =
     \<lparr>scs_metadataManager =
        \<lparr>smm_client = ctx_apiClient ctx, smm_appId = ctx_appId ctx,
         smm_saleorApiUrl = ctx_saleorApiUrl ctx\<rparr>,
      scs_featureFlagService = new_FeatureFlagService ctx\<rparr>"

definition new_WebhookManagementService :: "'c Ctx \<Rightarrow> 'c WebhookManagementService" where
  "new_WebhookManagementService ctx =
     \<lparr>wms_appBaseUrl = ctx_baseUrl ctx, wms_client = ctx_apiClient ctx,
      wms_featureFlagService = new_FeatureFlagService ctx, wms_appId = ctx_appId ctx\<rparr>"

text \<open>The context the business operation receives, and the argument object of
  \<^verbatim>\<open>syncWebhookStatus\<close>.\<close>

definition with_services :: "'c Ctx \<Rightarrow> 'c Ctx" where
  "with_services ctx =
     ctx\<lparr>ctx_smtpConfigurationService := Some (new_SmtpConfigurationService ctx),
         ctx_featureFlagService := Some (new_FeatureFlagService ctx)\<rparr>"

definition sync_args :: "'c Ctx \<Rightarrow> 'c SyncArgs" where
  "sync_args ctx =
     \<lparr>sa_smtpConfigurationService = new_SmtpConfigurationService ctx,
      sa_webhookManagementService = new_WebhookManagementService ctx\<rparr>"

definition configurationServices ::
  "'c app_env \<Rightarrow> Meta option \<Rightarrow> 'c Ctx \<Rightarrow> ('c Ctx \<Rightarrow> error + 'r) \<Rightarrow> 'r outcome" where
  "configurationServices E meta ctx handler =
     (let result = handler (with_services ctx) in
      if updateWebhooks_set meta
      then
        (case syncWebhookStatus E (sync_args ctx) of
           Inl e \<Rightarrow>
             (Inl e, [EvNextCalled, EvNextReturned, EvNewWebhookManagementService,
                      EvSyncWebhookStatus])
         | Inr _ \<Rightarrow>
             (result, [EvNextCalled, EvNextReturned, EvNewWebhookManagementService,
                       EvSyncWebhookStatus]))
      else (result, [EvNextCalled, EvNextReturned]))"

definition protectedWithConfigurationServices ::
  "'c app_env \<Rightarrow> Meta option \<Rightarrow> 'c Ctx \<Rightarrow> ('c Ctx \<Rightarrow> error + 'r) \<Rightarrow> 'r outcome" where
  "protectedWithConfigurationServices E meta ctx handler =
     protectedClientProcedure E meta ctx (\<lambda>c. configurationServices E meta c handler)"

section \<open>The register endpoint: the allowed-URL validator\<close>

text \<open>
  The function in \<^verbatim>\<open>allowedSaleorUrls\<close> of \<^verbatim>\<open>register.ts\<close>. \<open>allowedUrlsPattern\<close> is
  \<^verbatim>\<open>process.env.ALLOWED_DOMAIN_PATTERN\<close> (\<open>None\<close> when unset); the guard is its
  truthiness. \<open>RegExp_new p\<close> is \<^verbatim>\<open>new RegExp(p)\<close>: \<open>None\<close> when the pattern is malformed
  and the constructor throws, otherwise the compiled expression as its \<^verbatim>\<open>test\<close> method.
\<close>

definition allowedSaleorUrls ::
  "(string \<Rightarrow> (string \<Rightarrow> bool) option) \<Rightarrow> string option \<Rightarrow> string \<Rightarrow> error + bool" where
  "allowedSaleorUrls RegExp_new allowedUrlsPattern url =
     (if truthy allowedUrlsPattern
      then
        (case RegExp_new (or_empty allowedUrlsPattern) of
           None \<Rightarrow> Inl (SyntaxError ''Invalid regular expression'')
         | Some regex \<Rightarrow> Inr (regex url))
      else Inr True)"

section \<open>The webhook manifest differ\<close>

text \<open>
  The webhook management service and \<^verbatim>\<open>syncWebhookStatus\<close> are imported by the sources
  and not among them, so the differ follows the words of the specification.
\<close>

datatype delivery = Synchronous | Asynchronous

record WebhookManifestEntry =
  wh_name :: string
  wh_targetUrl :: string
  wh_eventTypes :: "string list"
  wh_isActive :: bool
  wh_syncOrAsync :: delivery

record RemoteWebhook = WebhookManifestEntry +
  wh_remoteId :: string

record WebhookDiff =
  toCreate :: "WebhookManifestEntry list"
  toUpdate :: "WebhookManifestEntry list"
  toDelete :: "RemoteWebhook list"

text \<open>Modelled from the spec: the matching key of an entry is \<open>(name, targetUrl)\<close>.\<close>

definition wh_key :: "'a WebhookManifestEntry_scheme \<Rightarrow> string \<times> string" where
  "wh_key e = (wh_name e, wh_targetUrl e)"

text \<open>
  Modelled from the spec: two entries with the same key differ when their event types,
  their activity flag or their delivery mode differ.
\<close>

definition wh_differs :: "WebhookManifestEntry \<Rightarrow> RemoteWebhook \<Rightarrow> bool" where
  "wh_differs d a =
     (\<not> (wh_eventTypes d = wh_eventTypes a \<and> wh_isActive d = wh_isActive a
         \<and> wh_syncOrAsync d = wh_syncOrAsync a))"

text \<open>
  Modelled from the spec: the differ of section 4.4, which is not among the sources. An
  entry only in \<open>desired\<close> is created; one in both with different event types, activity
  or delivery mode is updated; one only in \<open>actual\<close> is deleted unless its name is
  outside the set \<open>owned\<close> of names this system owns.
\<close>

definition diff ::
  "string set \<Rightarrow> WebhookManifestEntry list \<Rightarrow> RemoteWebhook list \<Rightarrow> WebhookDiff" where
  "diff owned desired actual =
     \<lparr>toCreate = filter (\<lambda>d. \<not> (\<exists>a \<in> set actual. wh_key a = wh_key d)) desired,
      toUpdate = filter (\<lambda>d. \<exists>a \<in> set actual. wh_key a = wh_key d \<and> wh_differs d a) desired,
      toDelete =
        filter (\<lambda>a. \<not> (\<exists>d \<in> set desired. wh_key d = wh_key a) \<and> wh_name a \<in> owned) actual\<rparr>"

section \<open>Concrete collaborators for the examples\<close>

text \<open>
  A runtime with two tenants. The key-set endpoint of \<open>shop.example\<close> answers requests
  that carry the \<^verbatim>\<open>Origin\<close> of its dashboard; every other request, and every request to
  \<open>closed.example\<close>, is answered 403.
\<close>

definition demo_fetch :: "string \<Rightarrow> RequestInit \<Rightarrow> error + Response" where
  "demo_fetch input init =
     (if input = ''https://shop.example/.well-known/jwks.json''
         \<and> map_of (init_headers init) ''Origin'' = Some ''https://dashboard.shop.example''
      then Inr \<lparr>ok = True, statusText = ''OK''\<rparr>
      else Inr \<lparr>ok = False, statusText = ''Forbidden''\<rparr>)"

text \<open>
  \<open>jwtVerify\<close> behaves as the library does: it fetches the key set from the URL of the
  key set it is given, with that key set's headers, and does not call the closure under
  \<^verbatim>\<open>fetch\<close>; an answer that is not \<^verbatim>\<open>ok\<close> is the library's own error.
  \<open>token-app-1\<close> is a token of the application \<open>app-1\<close>, signed by a key of
  \<open>shop.example\<close>, that carries no permission at all; \<open>token-app-2\<close> decodes to the claims
  of another application and has no valid signature; every other token is malformed.
\<close>

definition demo_runtime :: jose_runtime where
  "demo_runtime =
     \<lparr>URL_new = (\<lambda>s.
        if s = ''https://shop.example/graphql/''
           \<or> s = ''https://shop.example/.well-known/jwks.json''
        then Some \<lparr>href = s, origin = ''https://shop.example''\<rparr>
        else if s = ''https://closed.example/graphql/''
           \<or> s = ''https://closed.example/.well-known/jwks.json''
        then Some \<lparr>href = s, origin = ''https://closed.example''\<rparr>
        else None),
      fetch = demo_fetch,
      decodeJwt = (\<lambda>t.
        if t = ''token-app-1''
        then Inr [''app'' \<mapsto> JStr ''app-1'', ''permissions'' \<mapsto> JArr [],
                  ''user_permissions'' \<mapsto> JArr []]
        else if t = ''token-app-2'' then Inr [''app'' \<mapsto> JStr ''app-2'']
        else Inl (JsError ''Invalid JWT'')),
      jwtVerify = (\<lambda>t jwks.
        case demo_fetch (href (jwks_url jwks)) \<lparr>init_headers = jwks_headers jwks\<rparr> of
          Inl e \<Rightarrow> Inl e
        | Inr response \<Rightarrow>
            if \<not> ok response
            then Inl (JsError ''Expected 200 OK from the JSON Web Key Set HTTP response'')
            else if t = ''token-app-1'' then Inr ()
            else Inl (JsError ''signature verification failed''))\<rparr>"

definition demo_authData :: AuthData where
  "demo_authData =
     \<lparr>ad_domain = None, ad_token = ''app-token'',
      ad_saleorApiUrl = ''https://shop.example/graphql/'', ad_appId = ''app-1'',
      ad_dashboardUrl = ''dashboard.shop.example'', ad_jwks = None\<rparr>"

text \<open>
  The store holds the record under its \<open>appId\<close>; the client is the record of its
  arguments; the webhook reconciliation fails.
\<close>

definition demo_env :: "ClientArgs app_env" where
  "demo_env =
     \<lparr>runtime = demo_runtime,
      apl_get = (\<lambda>k. if k = ''app-1'' then Inr (Some demo_authData) else Inr None),
      REQUIRED_SALEOR_PERMISSIONS = [''MANAGE_APPS''],
      createInstrumentedGraphqlClient = (\<lambda>a. a),
      syncWebhookStatus = (\<lambda>a. Inl (JsError ''webhook sync failed''))\<rparr>"

text \<open>The same, with a store that holds the record under another key than its \<open>appId\<close>.\<close>

definition rekeyed_env :: "ClientArgs app_env" where
  "rekeyed_env =
     demo_env\<lparr>apl_get := (\<lambda>k. if k = ''install-1'' then Inr (Some demo_authData) else Inr None)\<rparr>"

text \<open>A request of the browser with the token \<open>t\<close>, and a server-originated request.\<close>

definition browser_ctx :: "string \<Rightarrow> ClientArgs Ctx" where
  "browser_ctx t =
     \<lparr>ctx_token = Some t, ctx_saleorApiUrl = Some ''https://shop.example/graphql/'',
      ctx_appId = Some ''app-1'', ctx_ssr = None, ctx_baseUrl = Some ''https://app.example'',
      ctx_appToken = None, ctx_dashboardUrl = None, ctx_apiClient = None,
      ctx_smtpConfigurationService = None, ctx_featureFlagService = None\<rparr>"

definition server_ctx :: "string option \<Rightarrow> string \<Rightarrow> ClientArgs Ctx" where
  "server_ctx t k = (browser_ctx [])\<lparr>ctx_token := t, ctx_appId := Some k, ctx_ssr := Some True\<rparr>"

definition demo_handler :: "ClientArgs Ctx \<Rightarrow> error + string" where
  "demo_handler c = Inr ''configuration saved''"

definition mutating_meta :: "Meta option" where
  "mutating_meta = Some \<lparr>requiredClientPermissions = None, updateWebhooks = Some True\<rparr>"

definition remote_webhook :: "string \<Rightarrow> string \<Rightarrow> RemoteWebhook" where
  "remote_webhook n i =
     \<lparr>wh_name = n, wh_targetUrl = ''https://app.example/wh'', wh_eventTypes = [''ORDER_CREATED''],
      wh_isActive = True, wh_syncOrAsync = Asynchronous, wh_remoteId = i\<rparr>"

text \<open>
  A regular-expression engine that knows two patterns: the empty one, which matches every
  string, and one anchored at the tenant's origin.
\<close>

definition demo_RegExp :: "string \<Rightarrow> (string \<Rightarrow> bool) option" where
  "demo_RegExp p =
     (if p = [] then Some (\<lambda>u. True)
      else if p = ''^https://shop[.]example/'' then Some (prefix ''https://shop.example/'')
      else None)"

section \<open>Shape of the pipeline's traces\<close>



text \<open>
  Stages 1 and 2 on their own, and a store that answers a lookup under a key only with a
  record of that \<open>appId\<close>.
\<close>

definition identity_stages :: "'c app_env \<Rightarrow> Meta option \<Rightarrow> 'c Ctx \<Rightarrow> 'c Ctx outcome" where
  "identity_stages E meta ctx =
     attachAppToken E ctx (\<lambda>c1. validateClientToken E meta c1 (\<lambda>c2. (Inr c2, [])))"

definition keyed_by_appId :: "'c app_env \<Rightarrow> bool" where
  "keyed_by_appId E = (\<forall>k a. apl_get E k = Inr (Some a) \<longrightarrow> ad_appId a = k)"

section \<open>Unfolding rules\<close>

lemmas verify_defs = verifyJWTWithCustomHeaders_def getJwksUrlFromSaleorApiUrl_def
  createCustomRemoteJWKSet_def fetchWithHeaders_def dashboard_headers_def ERROR_MESSAGE_def

lemmas stage_defs = attachAppToken_def validateClientToken_def attachApiClient_def
  protectedClientProcedure_def configurationServices_def
  protectedWithConfigurationServices_def emit_def truthy_def or_empty_def
  updateWebhooks_set_def requiredClientPermissions_or_nil_def verify_args_def
  client_args_def with_services_def sync_args_def JWT_VERIFICATION_FAILED_def

lemmas demo_defs = demo_env_def demo_runtime_def demo_fetch_def demo_authData_def
  browser_ctx_def server_ctx_def demo_handler_def mutating_meta_def

section \<open>The token verifier\<close>

text \<open>
  The verifier never reads \<^verbatim>\<open>requiredPermissions\<close>: its result is the same for every
  list of required permissions.
\<close>

lemma verifyJWT_requiredPermissions_unread:
  "verifyJWTWithCustomHeaders R (args\<lparr>va_requiredPermissions := ps\<rparr>)
     = verifyJWTWithCustomHeaders R args"
  by (simp add: verify_defs split: sum.splits option.splits)

text \<open>
  Claim C1 says that a token whose claims do not grant every required permission is
  rejected with the reason insufficient-permission. The code at the failing input: the
  signed token of \<open>app-1\<close> carries empty permission lists, \<open>MANAGE_APPS\<close> is required, and
  the verifier returns the claim set.
\<close>

theorem verifyJWT_returns_claims_lacking_permission:
  "verifyJWTWithCustomHeaders demo_runtime
     \<lparr>va_saleorApiUrl = ''https://shop.example/graphql/'', va_token = ''token-app-1'',
      va_appId = ''app-1'', va_requiredPermissions = [''MANAGE_APPS''],
      va_dashboardUrl = ''dashboard.shop.example''\<rparr>
   = Inr [''app'' \<mapsto> JStr ''app-1'', ''permissions'' \<mapsto> JArr [],
          ''user_permissions'' \<mapsto> JArr []]"
  by (simp add: verify_defs demo_runtime_def demo_fetch_def)

text \<open>
  Claim C2 as stated (a token that decodes and whose \<open>app\<close> claim differs from the
  expected \<open>appId\<close> fails with the app-mismatch reason whether or not its signature is
  valid) is false: \<open>token-app-2\<close> decodes to the claims of \<open>app-2\<close>, \<open>app-1\<close> is
  expected, the signature does not verify, and the failure is the signature failure.
\<close>

theorem verifyJWT_app_mismatch_counterexample:
  "decodeJwt demo_runtime ''token-app-2'' = Inr [''app'' \<mapsto> JStr ''app-2'']
   \<and> verifyJWTWithCustomHeaders demo_runtime
        \<lparr>va_saleorApiUrl = ''https://shop.example/graphql/'', va_token = ''token-app-2'',
         va_appId = ''app-1'', va_requiredPermissions = [],
         va_dashboardUrl = ''dashboard.shop.example''\<rparr>
     = Inl (JsError
         ''JWT verification failed: Signature verification failed: signature verification failed'')"
  by (simp add: verify_defs demo_runtime_def demo_fetch_def)

text \<open>
  Claim C2, amended: when the key set can be built from the API URL, the token decodes
  and its \<open>app\<close> claim differs from the expected \<open>appId\<close>, the verifier fails; the
  reason is the app mismatch when the signature verifies, and the signature failure
  (with the message of the underlying error) when it does not.
\<close>

theorem verifyJWT_app_mismatch:
  assumes "getJwksUrlFromSaleorApiUrl R (va_saleorApiUrl args) = Inr jwksUrl"
    and "createCustomRemoteJWKSet R jwksUrl (dashboard_headers (va_dashboardUrl args)) = Inr JWKS"
    and "decodeJwt R (va_token args) = Inr tokenClaims"
    and "tokenClaims ''app'' \<noteq> Some (JStr (va_appId args))"
  shows "verifyJWTWithCustomHeaders R args =
     (case jwtVerify R (va_token args) JWKS of
        Inl e \<Rightarrow>
          Inl (JsError (''JWT verification failed: Signature verification failed: '' @ message e))
      | Inr _ \<Rightarrow>
          Inl (JsError ''JWT verification failed: Token's app property does not match app ID.''))"
  using assms
  by (simp add: verifyJWTWithCustomHeaders_def ERROR_MESSAGE_def split: sum.splits)

text \<open>
  The amended claim C2 at a token with a valid signature: \<open>token-app-1\<close> presented where
  \<open>app-9\<close> is expected fails with the app mismatch.
\<close>

theorem verifyJWT_app_mismatch_witness:
  "decodeJwt demo_runtime ''token-app-1''
     = Inr [''app'' \<mapsto> JStr ''app-1'', ''permissions'' \<mapsto> JArr [], ''user_permissions'' \<mapsto> JArr []]
   \<and> verifyJWTWithCustomHeaders demo_runtime
        \<lparr>va_saleorApiUrl = ''https://shop.example/graphql/'', va_token = ''token-app-1'',
         va_appId = ''app-9'', va_requiredPermissions = [],
         va_dashboardUrl = ''dashboard.shop.example''\<rparr>
     = Inl (JsError ''JWT verification failed: Token's app property does not match app ID.'')"
proof -
  let ?args = "\<lparr>va_saleorApiUrl = ''https://shop.example/graphql/'', va_token = ''token-app-1'',
         va_appId = ''app-9'', va_requiredPermissions = [],
         va_dashboardUrl = ''dashboard.shop.example''\<rparr>"
  let ?claims = "[''app'' \<mapsto> JStr ''app-1'', ''permissions'' \<mapsto> JArr [],
         ''user_permissions'' \<mapsto> JArr []]"
  let ?jwks = "\<lparr>jwks_url = \<lparr>href = ''https://shop.example/.well-known/jwks.json'',
                              origin = ''https://shop.example''\<rparr>,
                 jwks_fetch = fetchWithHeaders demo_runtime
                                (dashboard_headers ''dashboard.shop.example''),
                 jwks_headers = dashboard_headers ''dashboard.shop.example''\<rparr>"
  have url: "getJwksUrlFromSaleorApiUrl demo_runtime (va_saleorApiUrl ?args)
               = Inr ''https://shop.example/.well-known/jwks.json''"
    by (simp add: getJwksUrlFromSaleorApiUrl_def demo_runtime_def)
  have jwks: "createCustomRemoteJWKSet demo_runtime ''https://shop.example/.well-known/jwks.json''
                (dashboard_headers (va_dashboardUrl ?args)) = Inr ?jwks"
    by (simp add: createCustomRemoteJWKSet_def demo_runtime_def)
  have dec: "decodeJwt demo_runtime (va_token ?args) = Inr ?claims"
    by (simp add: demo_runtime_def)
  have app: "?claims ''app'' \<noteq> Some (JStr (va_appId ?args))"
    by simp
  have sig: "jwtVerify demo_runtime (va_token ?args) ?jwks = Inr ()"
    by (simp add: demo_runtime_def demo_fetch_def dashboard_headers_def)
  from verifyJWT_app_mismatch [OF url jwks dec app] sig dec show ?thesis
    by simp
qed

section \<open>Key-set resolution inside the verifier\<close>

text \<open>
  Claim C9 as stated (when the key-set endpoint answers with a non-success status or is
  unreachable, key-set resolution fails with a key-set-unavailable error whose message
  includes the endpoint URL) is false. The key set is resolved inside \<^verbatim>\<open>jose.jwtVerify\<close>,
  and whatever that call throws is caught by the verifier and reported as a failed
  signature verification. For the tenant whose endpoint answers 403 the failure is a
  plain \<^verbatim>\<open>Error\<close> with the library's message behind the verifier's prefix, and the
  endpoint URL is no part of it (the message has no \<open>/\<close>).
\<close>

theorem verifyJWT_keyset_counterexample:
  "getJwksUrlFromSaleorApiUrl demo_runtime ''https://closed.example/graphql/''
     = Inr ''https://closed.example/.well-known/jwks.json''
   \<and> verifyJWTWithCustomHeaders demo_runtime
        \<lparr>va_saleorApiUrl = ''https://closed.example/graphql/'', va_token = ''token-app-1'',
         va_appId = ''app-1'', va_requiredPermissions = [],
         va_dashboardUrl = ''dashboard.closed.example''\<rparr>
     = Inl (JsError (''JWT verification failed: Signature verification failed: ''
              @ ''Expected 200 OK from the JSON Web Key Set HTTP response''))
   \<and> \<not> sublist ''https://closed.example/.well-known/jwks.json''
          (''JWT verification failed: Signature verification failed: ''
              @ ''Expected 200 OK from the JSON Web Key Set HTTP response'')"
proof -
  have "\<not> set ''https://closed.example/.well-known/jwks.json''
          \<subseteq> set (''JWT verification failed: Signature verification failed: ''
              @ ''Expected 200 OK from the JSON Web Key Set HTTP response'')"
    by simp
  then have "\<not> sublist ''https://closed.example/.well-known/jwks.json''
          (''JWT verification failed: Signature verification failed: ''
              @ ''Expected 200 OK from the JSON Web Key Set HTTP response'')"
    using set_mono_sublist by blast
  then show ?thesis
    by (simp add: verify_defs demo_runtime_def demo_fetch_def)
qed

text \<open>
  Claim C9, amended: whenever the key set cannot be resolved (the endpoint answers with
  a non-success status or is unreachable), so that \<^verbatim>\<open>jose.jwtVerify\<close> throws an error
  \<open>e\<close>, the verifier fails for every token that decodes with a plain \<^verbatim>\<open>Error\<close> whose
  message is \<open>JWT verification failed: Signature verification failed: \<close> followed by
  the message of \<open>e\<close>; the code adds nothing else to it, in particular not the endpoint
  URL.
\<close>

theorem verifyJWT_keyset_failure:
  assumes "getJwksUrlFromSaleorApiUrl R (va_saleorApiUrl args) = Inr jwksUrl"
    and "createCustomRemoteJWKSet R jwksUrl (dashboard_headers (va_dashboardUrl args)) = Inr JWKS"
    and "decodeJwt R (va_token args) = Inr tokenClaims"
    and "jwtVerify R (va_token args) JWKS = Inl e"
  shows "verifyJWTWithCustomHeaders R args =
     Inl (JsError (''JWT verification failed: Signature verification failed: '' @ message e))"
  using assms by (simp add: verifyJWTWithCustomHeaders_def ERROR_MESSAGE_def)

text \<open>
  The amended claim C9 at the tenant whose key-set endpoint answers 403, with a token
  that decodes.
\<close>

theorem verifyJWT_keyset_failure_witness:
  "jwtVerify demo_runtime ''token-app-1''
       \<lparr>jwks_url = \<lparr>href = ''https://closed.example/.well-known/jwks.json'',
                    origin = ''https://closed.example''\<rparr>,
        jwks_fetch = fetchWithHeaders demo_runtime (dashboard_headers ''dashboard.closed.example''),
        jwks_headers = dashboard_headers ''dashboard.closed.example''\<rparr>
     = Inl (JsError ''Expected 200 OK from the JSON Web Key Set HTTP response'')
   \<and> verifyJWTWithCustomHeaders demo_runtime
        \<lparr>va_saleorApiUrl = ''https://closed.example/graphql/'', va_token = ''token-app-1'',
         va_appId = ''app-1'', va_requiredPermissions = [],
         va_dashboardUrl = ''dashboard.closed.example''\<rparr>
     = Inl (JsError (''JWT verification failed: Signature verification failed: ''
              @ ''Expected 200 OK from the JSON Web Key Set HTTP response''))"
proof -
  let ?args = "\<lparr>va_saleorApiUrl = ''https://closed.example/graphql/'', va_token = ''token-app-1'',
         va_appId = ''app-1'', va_requiredPermissions = [],
         va_dashboardUrl = ''dashboard.closed.example''\<rparr>"
  let ?claims = "[''app'' \<mapsto> JStr ''app-1'', ''permissions'' \<mapsto> JArr [],
         ''user_permissions'' \<mapsto> JArr []]"
  let ?jwks = "\<lparr>jwks_url = \<lparr>href = ''https://closed.example/.well-known/jwks.json'',
                              origin = ''https://closed.example''\<rparr>,
                 jwks_fetch = fetchWithHeaders demo_runtime
                                (dashboard_headers ''dashboard.closed.example''),
                 jwks_headers = dashboard_headers ''dashboard.closed.example''\<rparr>"
  have url: "getJwksUrlFromSaleorApiUrl demo_runtime (va_saleorApiUrl ?args)
               = Inr ''https://closed.example/.well-known/jwks.json''"
    by (simp add: getJwksUrlFromSaleorApiUrl_def demo_runtime_def)
  have jwks: "createCustomRemoteJWKSet demo_runtime ''https://closed.example/.well-known/jwks.json''
                (dashboard_headers (va_dashboardUrl ?args)) = Inr ?jwks"
    by (simp add: createCustomRemoteJWKSet_def demo_runtime_def)
  have dec: "decodeJwt demo_runtime (va_token ?args) = Inr ?claims"
    by (simp add: demo_runtime_def)
  have sig: "jwtVerify demo_runtime (va_token ?args) ?jwks
               = Inl (JsError ''Expected 200 OK from the JSON Web Key Set HTTP response'')"
    by (simp add: demo_runtime_def demo_fetch_def dashboard_headers_def)
  from verifyJWT_keyset_failure [OF url jwks dec sig] sig show ?thesis
    by simp
qed


section \<open>The register endpoint\<close>

text \<open>
  Claim C10: when \<^verbatim>\<open>ALLOWED_DOMAIN_PATTERN\<close> is unset the validator allows every URL;
  when it is set to a pattern \<open>p\<close> that compiles to \<open>regex\<close>, a URL is allowed if and only
  if \<open>regex\<close> matches it. The code treats the empty pattern as unset and allows every
  URL; that is what matching the empty pattern means in ECMAScript, which the second
  hypothesis records for the engine at hand.
\<close>

theorem allowedSaleorUrls_pattern:
  "allowedSaleorUrls RegExp_new None url = Inr True
   \<and> (RegExp_new p = Some regex \<and> (p = [] \<longrightarrow> regex url)
        \<longrightarrow> allowedSaleorUrls RegExp_new (Some p) url = Inr (regex url))"
  by (simp add: allowedSaleorUrls_def truthy_def or_empty_def)

text \<open>
  Claim C10 with the pattern of the tenant's origin: the tenant's API URL is allowed,
  another origin is not.
\<close>

theorem allowedSaleorUrls_pattern_witness:
  "demo_RegExp ''^https://shop[.]example/'' = Some (prefix ''https://shop.example/'')
   \<and> allowedSaleorUrls demo_RegExp (Some ''^https://shop[.]example/'')
        ''https://shop.example/graphql/'' = Inr True
   \<and> allowedSaleorUrls demo_RegExp (Some ''^https://shop[.]example/'')
        ''https://evil.example/graphql/'' = Inr False"
proof -
  have c: "demo_RegExp ''^https://shop[.]example/'' = Some (prefix ''https://shop.example/'')"
    by (simp add: demo_RegExp_def)
  have ne: "''^https://shop[.]example/'' = [] \<longrightarrow> prefix ''https://shop.example/'' u" for u
    by simp
  have "allowedSaleorUrls demo_RegExp (Some ''^https://shop[.]example/'') u
          = Inr (prefix ''https://shop.example/'' u)" for u
    using allowedSaleorUrls_pattern [of demo_RegExp u "''^https://shop[.]example/''"
        "prefix ''https://shop.example/''"] c ne
    by blast
  then show ?thesis using c by simp
qed

section \<open>The webhook manifest differ\<close>

text \<open>
  Claim C5: for every pair of desired and actual webhook lists, every remote webhook
  the differ places into \<open>toDelete\<close> has a name of the owned-name set; a webhook whose
  name is outside it is never deleted, whether or not the desired manifest holds it.
\<close>

theorem diff_never_deletes_foreign:
  "\<forall>w \<in> set (toDelete (diff owned desired actual)). wh_name w \<in> owned"
  by (simp add: diff_def)

text \<open>
  Claim C5 with an empty manifest and two remote webhooks, one owned and one foreign:
  only the owned one is deleted.
\<close>

theorem diff_never_deletes_foreign_witness:
  "toDelete (diff {''order-created''} []
      [remote_webhook ''order-created'' ''42'', remote_webhook ''foreign'' ''7''])
     = [remote_webhook ''order-created'' ''42'']
   \<and> wh_name (remote_webhook ''order-created'' ''42'') \<in> {''order-created''}
   \<and> wh_name (remote_webhook ''foreign'' ''7'') \<notin> {''order-created''}"
proof -
  let ?d = "diff {''order-created''} []
      [remote_webhook ''order-created'' ''42'', remote_webhook ''foreign'' ''7'']"
  have d: "toDelete ?d = [remote_webhook ''order-created'' ''42'']"
    by (simp add: diff_def remote_webhook_def)
  have "\<forall>w \<in> set (toDelete ?d). wh_name w \<in> {''order-created''}"
    by (rule diff_never_deletes_foreign)
  with d have "wh_name (remote_webhook ''order-created'' ''42'') \<in> {''order-created''}"
    by simp
  moreover have "wh_name (remote_webhook ''foreign'' ''7'') \<notin> {''order-created''}"
    by (simp add: remote_webhook_def)
  ultimately show ?thesis using d by simp
qed

section \<open>The configuration-services middleware\<close>

text \<open>
  Claim C3 as stated (when the business operation of a configuration-mutating request
  succeeds, a failure thrown by \<^verbatim>\<open>syncWebhookStatus\<close> does not change the outcome) is
  false: the operation is flagged and succeeds, the reconciliation throws, and the
  request ends with the reconciliation's error; the same request without the flag
  returns the result of the business operation.
\<close>

theorem sync_failure_counterexample:
  "updateWebhooks_set mutating_meta
   \<and> fst (protectedWithConfigurationServices demo_env mutating_meta
            (browser_ctx ''token-app-1'') demo_handler)
       = Inl (JsError ''webhook sync failed'')
   \<and> fst (protectedWithConfigurationServices demo_env None
            (browser_ctx ''token-app-1'') demo_handler)
       = Inr ''configuration saved''"
  by (simp add: stage_defs demo_defs verify_defs)

text \<open>
  Claim C3, amended: for every request flagged as configuration-mutating whose business
  operation completes successfully, the middleware returns the successful business
  result when \<^verbatim>\<open>syncWebhookStatus\<close> completes, and a failure thrown by
  \<^verbatim>\<open>syncWebhookStatus\<close> propagates as the outcome of the request.
\<close>

theorem configurationServices_result:
  assumes "updateWebhooks_set meta"
    and "handler (with_services ctx) = Inr result"
  shows "fst (configurationServices E meta ctx handler) =
     (case syncWebhookStatus E (sync_args ctx) of Inl e \<Rightarrow> Inl e | Inr _ \<Rightarrow> Inr result)"
  using assms by (simp add: configurationServices_def Let_def split: sum.splits)

text \<open>
  The amended claim C3 at a reconciliation that fails and at one that completes.
\<close>

theorem configurationServices_result_witness:
  "updateWebhooks_set mutating_meta
   \<and> demo_handler (with_services (browser_ctx ''token-app-1'')) = Inr ''configuration saved''
   \<and> fst (configurationServices demo_env mutating_meta (browser_ctx ''token-app-1'') demo_handler)
       = Inl (JsError ''webhook sync failed'')
   \<and> fst (configurationServices (demo_env\<lparr>syncWebhookStatus := (\<lambda>a. Inr ())\<rparr>) mutating_meta
            (browser_ctx ''token-app-1'') demo_handler)
       = Inr ''configuration saved''"
proof -
  have m: "updateWebhooks_set mutating_meta"
    by (simp add: updateWebhooks_set_def mutating_meta_def)
  have h: "demo_handler (with_services (browser_ctx ''token-app-1'')) = Inr ''configuration saved''"
    by (simp add: demo_handler_def)
  note r = configurationServices_result [where meta = mutating_meta and handler = demo_handler
      and ctx = "browser_ctx ''token-app-1''" and result = "''configuration saved''", OF m h]
  show ?thesis
    using r [of demo_env] r [of "demo_env\<lparr>syncWebhookStatus := (\<lambda>a. Inr ())\<rparr>"] m h
    by (simp add: demo_env_def)
qed

section \<open>The validate-bearer-token stage\<close>

text \<open>
  Claim C6: for every browser-originated request in which token verification fails,
  whatever the error \<open>e\<close> the verifier failed with (malformed token, bad signature, app
  mismatch), the stage terminates the request with one and the same error, which does
  not carry \<open>e\<close>, and does not call \<^verbatim>\<open>next\<close>.
\<close>

theorem validateClientToken_one_denial:
  assumes "truthy (ctx_token ctx)" and "truthy (ctx_appId ctx)"
    and "truthy (ctx_saleorApiUrl ctx)"
    and "ctx_ssr ctx \<noteq> Some True"
    and "apl_get E (or_empty (ctx_appId ctx)) = Inr (Some authData)"
    and "verifyJWTWithCustomHeaders (runtime E) (verify_args E meta ctx authData) = Inl e"
  shows "validateClientToken E meta ctx next =
     (Inl (ProtectedHandlerError ''JWT verification failed: '' ''JWT_VERIFICATION_FAILED''),
      [EvAplGet (or_empty (ctx_appId ctx)), EvVerifyJWT])"
  using assms by (simp add: validateClientToken_def JWT_VERIFICATION_FAILED_def)

text \<open>
  Claim C6 at two requests of the browser: a malformed token and a token with a bad
  signature fail inside the verifier with different errors, and the stage ends both with
  the same error.
\<close>

theorem validateClientToken_one_denial_witness:
  "verifyJWTWithCustomHeaders (runtime demo_env)
       (verify_args demo_env None (browser_ctx ''garbage'') demo_authData)
     = Inl (JsError ''JWT verification failed: Could not decode token: Invalid JWT'')
   \<and> verifyJWTWithCustomHeaders (runtime demo_env)
       (verify_args demo_env None (browser_ctx ''token-app-2'') demo_authData)
     = Inl (JsError
         ''JWT verification failed: Signature verification failed: signature verification failed'')
   \<and> validateClientToken demo_env None (browser_ctx ''garbage'') (\<lambda>c. (Inr c, [EvNextCalled]))
     = (Inl (ProtectedHandlerError ''JWT verification failed: '' ''JWT_VERIFICATION_FAILED''),
        [EvAplGet ''app-1'', EvVerifyJWT])
   \<and> validateClientToken demo_env None (browser_ctx ''token-app-2'') (\<lambda>c. (Inr c, [EvNextCalled]))
     = (Inl (ProtectedHandlerError ''JWT verification failed: '' ''JWT_VERIFICATION_FAILED''),
        [EvAplGet ''app-1'', EvVerifyJWT])"
proof -
  have pre: "truthy (ctx_token (browser_ctx t))" "truthy (ctx_appId (browser_ctx t))"
      "truthy (ctx_saleorApiUrl (browser_ctx t))" "ctx_ssr (browser_ctx t) \<noteq> Some True"
      "apl_get demo_env (or_empty (ctx_appId (browser_ctx t))) = Inr (Some demo_authData)"
    if "t \<noteq> []" for t :: string
    using that by (simp_all add: truthy_def or_empty_def browser_ctx_def demo_env_def)
  have v1: "verifyJWTWithCustomHeaders (runtime demo_env)
       (verify_args demo_env None (browser_ctx ''garbage'') demo_authData)
     = Inl (JsError ''JWT verification failed: Could not decode token: Invalid JWT'')"
    by (simp add: verify_defs verify_args_def or_empty_def demo_defs)
  have v2: "verifyJWTWithCustomHeaders (runtime demo_env)
       (verify_args demo_env None (browser_ctx ''token-app-2'') demo_authData)
     = Inl (JsError
         ''JWT verification failed: Signature verification failed: signature verification failed'')"
    by (simp add: verify_defs verify_args_def or_empty_def demo_defs)
  have k: "or_empty (ctx_appId (browser_ctx t)) = ''app-1''" for t
    by (simp add: or_empty_def browser_ctx_def)
  show ?thesis
    using validateClientToken_one_denial [OF pre v1, of "\<lambda>c. (Inr c, [EvNextCalled])"]
      validateClientToken_one_denial [OF pre v2, of "\<lambda>c. (Inr c, [EvNextCalled])"] v1 v2
    by (simp add: k)
qed

text \<open>
  Claim C7 as stated (a server-originated request skips the stage entirely and is never
  terminated by it; a browser-originated request always goes through the verifier) is
  false: the three guards of the stage come before the test of \<^verbatim>\<open>ctx.ssr\<close>. A
  server-originated request with no token is terminated by the stage, and a
  browser-originated request with no token is terminated before the verifier is called.
\<close>

theorem validateClientToken_skip_counterexample:
  "ctx_ssr (server_ctx None ''app-1'') = Some True
   \<and> validateClientToken demo_env None (server_ctx None ''app-1'') (\<lambda>c. (Inr c, [EvNextCalled]))
     = (Inl (TRPCError INTERNAL_SERVER_ERROR
          ''Missing token in request. This middleware can be used only in frontend''), [])
   \<and> ctx_ssr (browser_ctx []) = None
   \<and> validateClientToken demo_env None (browser_ctx []) (\<lambda>c. (Inr c, [EvNextCalled]))
     = (Inl (TRPCError INTERNAL_SERVER_ERROR
          ''Missing token in request. This middleware can be used only in frontend''), [])"
  by (simp add: stage_defs demo_defs)

text \<open>
  Claim C7, amended. For every request whose context carries a non-empty token, appId and
  saleorApiUrl: if \<^verbatim>\<open>ctx.ssr\<close> is set, the stage performs no store lookup and no token
  verification and is \<^verbatim>\<open>next\<close> applied to the unchanged context; if it is not set, the
  stage reaches \<^verbatim>\<open>next\<close> only after the auth record was found and the verifier
  returned a claim set, and otherwise terminates the request with the verification
  error. A request that lacks one of the three is terminated with
  \<open>INTERNAL_SERVER_ERROR\<close> before anything else happens, whatever \<^verbatim>\<open>ctx.ssr\<close> is.
\<close>

theorem validateClientToken_gate:
  "(truthy (ctx_token ctx) \<and> truthy (ctx_appId ctx) \<and> truthy (ctx_saleorApiUrl ctx)
      \<and> ctx_ssr ctx = Some True
     \<longrightarrow> validateClientToken E meta ctx next = next ctx)
   \<and> (truthy (ctx_token ctx) \<and> truthy (ctx_appId ctx) \<and> truthy (ctx_saleorApiUrl ctx)
      \<and> ctx_ssr ctx \<noteq> Some True
     \<longrightarrow> (\<exists>authData claims.
            apl_get E (or_empty (ctx_appId ctx)) = Inr (Some authData)
            \<and> verifyJWTWithCustomHeaders (runtime E) (verify_args E meta ctx authData)
                = Inr claims
            \<and> validateClientToken E meta ctx next
                = emit [EvAplGet (or_empty (ctx_appId ctx)), EvVerifyJWT] (next ctx))
         \<or> (\<exists>tr. validateClientToken E meta ctx next = (Inl JWT_VERIFICATION_FAILED, tr)
               \<and> (tr = [EvAplGet (or_empty (ctx_appId ctx))]
                    \<or> tr = [EvAplGet (or_empty (ctx_appId ctx)), EvVerifyJWT])))
   \<and> (\<not> (truthy (ctx_token ctx) \<and> truthy (ctx_appId ctx) \<and> truthy (ctx_saleorApiUrl ctx))
     \<longrightarrow> (\<exists>m. validateClientToken E meta ctx next
                = (Inl (TRPCError INTERNAL_SERVER_ERROR m), [])))"
  by (auto simp add: validateClientToken_def split: sum.splits option.splits)

text \<open>
  The amended claim C7 at three requests: a server-originated request with a token goes
  straight to \<^verbatim>\<open>next\<close>; a browser-originated request with the signed token of \<open>app-1\<close>
  reaches \<^verbatim>\<open>next\<close> after the lookup and the verification; a server-originated request
  without a token is terminated.
\<close>

theorem validateClientToken_gate_witness:
  "ctx_ssr (server_ctx (Some ''server-token'') ''app-1'') = Some True
   \<and> validateClientToken demo_env None (server_ctx (Some ''server-token'') ''app-1'')
        (\<lambda>c. (Inr (ctx_token c), [EvNextCalled]))
     = (Inr (Some ''server-token''), [EvNextCalled])
   \<and> ctx_ssr (browser_ctx ''token-app-1'') \<noteq> Some True
   \<and> validateClientToken demo_env None (browser_ctx ''token-app-1'')
        (\<lambda>c. (Inr (ctx_token c), [EvNextCalled]))
     = (Inr (Some ''token-app-1''), [EvAplGet ''app-1'', EvVerifyJWT, EvNextCalled])
   \<and> \<not> truthy (ctx_token (server_ctx None ''app-1''))
   \<and> (\<exists>m. validateClientToken demo_env None (server_ctx None ''app-1'')
        (\<lambda>c. (Inr (ctx_token c), [EvNextCalled]))
     = (Inl (TRPCError INTERNAL_SERVER_ERROR m), []))"
proof -
  let ?next = "\<lambda>c :: ClientArgs Ctx. (Inr (ctx_token c) :: error + string option, [EvNextCalled])"
  let ?s = "server_ctx (Some ''server-token'') ''app-1''"
  let ?b = "browser_ctx ''token-app-1''"
  let ?n = "server_ctx None ''app-1''"
  have s: "truthy (ctx_token ?s) \<and> truthy (ctx_appId ?s) \<and> truthy (ctx_saleorApiUrl ?s)
      \<and> ctx_ssr ?s = Some True"
    by (simp add: truthy_def server_ctx_def browser_ctx_def)
  have b: "truthy (ctx_token ?b) \<and> truthy (ctx_appId ?b) \<and> truthy (ctx_saleorApiUrl ?b)
      \<and> ctx_ssr ?b \<noteq> Some True"
    by (simp add: truthy_def browser_ctx_def)
  have n: "\<not> truthy (ctx_token ?n)"
    by (simp add: truthy_def server_ctx_def browser_ctx_def)
  have "validateClientToken demo_env None ?s ?next = ?next ?s"
    using validateClientToken_gate [of ?s demo_env None ?next] s by blast
  then have 1: "validateClientToken demo_env None ?s ?next
                  = (Inr (Some ''server-token''), [EvNextCalled])"
    by (simp add: server_ctx_def browser_ctx_def)
  have v: "validateClientToken demo_env None ?b ?next \<noteq> (Inl JWT_VERIFICATION_FAILED, tr)" for tr
    by (simp add: stage_defs demo_defs verify_defs)
  then have "validateClientToken demo_env None ?b ?next
               = emit [EvAplGet (or_empty (ctx_appId ?b)), EvVerifyJWT] (?next ?b)"
    using validateClientToken_gate [of ?b demo_env None ?next] b by blast
  then have 2: "validateClientToken demo_env None ?b ?next
                  = (Inr (Some ''token-app-1''), [EvAplGet ''app-1'', EvVerifyJWT, EvNextCalled])"
    by (simp add: emit_def or_empty_def browser_ctx_def)
  have 3: "\<exists>m. validateClientToken demo_env None ?n ?next
                  = (Inl (TRPCError INTERNAL_SERVER_ERROR m), [])"
    using validateClientToken_gate [of ?n demo_env None ?next] n by blast
  show ?thesis using s b n 1 2 3 by simp
qed

section \<open>The attach-client stage\<close>

text \<open>
  Stage 3 repeats the lookup of stage 1 under the \<open>appId\<close> of the record stage 1 found.
  With a store that answers a lookup only with a record of that \<open>appId\<close>, a context that
  passed stages 1 and 2 has its record found again, and stage 3 attaches the client and
  calls \<^verbatim>\<open>next\<close>.
\<close>

lemma identity_stages_record:
  assumes "keyed_by_appId E" and "identity_stages E meta ctx = (Inr c, pre)"
  shows "\<exists>a. apl_get E (or_empty (ctx_appId c)) = Inr (Some a)"
proof -
  from assms(2) obtain a where a: "apl_get E (or_empty (ctx_appId ctx)) = Inr (Some a)"
    and c: "ctx_appId c = Some (ad_appId a)"
    by (auto simp add: identity_stages_def attachAppToken_def validateClientToken_def emit_def
          split: if_splits sum.splits option.splits)
  from assms(1) a have "ad_appId a = or_empty (ctx_appId ctx)"
    by (simp add: keyed_by_appId_def)
  with a c show ?thesis by (simp add: or_empty_def)
qed

lemma attachApiClient_found:
  assumes "apl_get E (or_empty (ctx_appId ctx)) = Inr (Some authData)"
  shows "attachApiClient E ctx next =
     emit [EvAplGet (or_empty (ctx_appId ctx))]
       (next (ctx\<lparr>ctx_apiClient :=
          Some (createInstrumentedGraphqlClient E (client_args ctx authData))\<rparr>))"
  using assms by (simp add: attachApiClient_def)

text \<open>
  Claim C8 says that stage 3 never itself terminates a request that passed stages 1 and
  2. The code at the failing input: the store answers the lookup of stage 1 and finds
  nothing under the \<open>appId\<close> of the record it returned; the server-originated request
  passes stages 1 and 2, and stage 3 reads \<^verbatim>\<open>dashboardUrl\<close> of \<^verbatim>\<open>undefined\<close>, which
  neither a guard (as in stage 1) nor a \<^verbatim>\<open>try\<close> (as in stage 2) stands before. The
  request ends with the \<^verbatim>\<open>TypeError\<close> and \<^verbatim>\<open>next\<close> is never called.
\<close>

theorem attachApiClient_unguarded_lookup:
  "identity_stages rekeyed_env None (server_ctx (Some ''server-token'') ''install-1'')
     = (Inr ((server_ctx (Some ''server-token'') ''install-1'')
               \<lparr>ctx_appToken := Some ''app-token'',
                ctx_saleorApiUrl := Some ''https://shop.example/graphql/'',
                ctx_appId := Some ''app-1''\<rparr>),
        [EvAplGet ''install-1''])
   \<and> protectedClientProcedure rekeyed_env None (server_ctx (Some ''server-token'') ''install-1'')
       (\<lambda>c. (Inr c, [EvNextCalled]))
     = (Inl (TypeError ''Cannot read properties of undefined (reading 'dashboardUrl')''),
        [EvAplGet ''install-1'', EvAplGet ''app-1''])"
  by (simp add: identity_stages_def stage_defs demo_defs rekeyed_env_def)


section \<open>When the webhook reconciliation runs\<close>








end
